theory Spec2Isabelle
  imports Complex_Main "HOL-Library.Multiset"
begin

section \<open>Python strings\<close>

text \<open>
  A Python \<open>str\<close> is modelled as a \<open>string\<close> holding its UTF-8 bytes. The only string
  operations of \<open>app.py\<close> that the audit depends on are concatenation, \<open>str.join\<close>,
  \<open>str(int)\<close> and the substring test \<open>needle in haystack\<close> with the ASCII needles
  \<open>"FRAUD"\<close> and \<open>"POTENTIAL"\<close>; on UTF-8 bytes an ASCII needle occurs exactly where it
  occurs in the sequence of code points.
\<close>

definition digit_char :: "nat \<Rightarrow> char" where
  "digit_char n = ''0123456789'' ! (n mod 10)"

function str_nat :: "nat \<Rightarrow> string" where
  "str_nat n = (if n < 10 then [digit_char n] else str_nat (n div 10) @ [digit_char n])"
  by pat_completeness auto
termination
  by (relation "measure (\<lambda>n. n)") auto

declare str_nat.simps [simp del]

text \<open>\<open>str(i)\<close> of a Python integer: decimal digits, with a minus sign when negative.\<close>

definition py_str :: "int \<Rightarrow> string" where
  "py_str i = (if i < 0 then ''-'' @ str_nat (nat (- i)) else str_nat (nat i))"

text \<open>\<open>sep.join(parts)\<close>.\<close>

fun join_str :: "string \<Rightarrow> string list \<Rightarrow> string" where
  "join_str sep [] = []"
| "join_str sep [p] = p"
| "join_str sep (p # q # ps) = p @ sep @ join_str sep (q # ps)"

fun starts_with :: "string \<Rightarrow> string \<Rightarrow> bool" where
  "starts_with [] hay = True"
| "starts_with (c # cs) [] = False"
| "starts_with (c # cs) (h # hs) = (c = h \<and> starts_with cs hs)"

text \<open>\<open>needle in hay\<close>: the needle occurs as a contiguous run somewhere in \<open>hay\<close>.\<close>

fun str_in :: "string \<Rightarrow> string \<Rightarrow> bool" where
  "str_in needle [] = (needle = [])"
| "str_in needle (h # hs) = (starts_with needle (h # hs) \<or> str_in needle hs)"

section \<open>Utility functions\<close>

text \<open>
  \<open>ms_to_duration_str\<close> (lines 118-132). Python's \<open>//\<close> and \<open>%\<close> with a positive divisor
  are floor division and its remainder, as \<open>div\<close> and \<open>mod\<close> on \<open>int\<close> are.
\<close>

definition ms_to_duration_str :: "int \<Rightarrow> string" where
  "ms_to_duration_str duration_ms =
     (let total_seconds = duration_ms div 1000;
          hours = total_seconds div 3600;
          minutes = (total_seconds mod 3600) div 60;
          seconds = total_seconds mod 60;
          parts0 = [];
          parts1 = (if hours > 0 then parts0 @ [py_str hours @ ''h''] else parts0);
          parts2 = (if minutes > 0 then parts1 @ [py_str minutes @ ''m''] else parts1);
          parts3 = parts2 @ [py_str seconds @ ''s'']
      in join_str '' '' parts3)"

section \<open>Fraud detection functions\<close>

definition SHORT_TASK_THRESHOLD_MINUTES :: int where
  "SHORT_TASK_THRESHOLD_MINUTES = 5"

text \<open>\<open>check_zero_seconds_trap\<close> (lines 138-142).\<close>

definition check_zero_seconds_trap :: "int \<Rightarrow> bool" where
  "check_zero_seconds_trap duration_ms =
     (let total_seconds = duration_ms div 1000;
          seconds = total_seconds mod 60
      in seconds = 0 \<and> duration_ms > 0)"

text \<open>
  \<open>check_short_task\<close> (lines 145-148). \<open>duration_ms / 60000\<close> is Python's true division
  of two integers, the correctly rounded double of the exact quotient. The threshold 5 is
  a double and rounding is monotone, and no quotient of an integer by 60000 lies strictly
  between 5 and its neighbouring doubles, so the comparison with 5 has the same outcome
  on the exact quotient, which is what the model compares.
\<close>

definition check_short_task :: "int \<Rightarrow> bool" where
  "check_short_task duration_ms =
     (let duration_minutes = real_of_int duration_ms / 60000
      in duration_minutes < real_of_int SHORT_TASK_THRESHOLD_MINUTES)"

text \<open>
  The three labels of \<open>get_verdict\<close>, with their leading emoji as UTF-8 bytes:
  U+1F6A8, then U+26A0 U+FE0F, then U+2705.
\<close>

definition FRAUD_LABEL :: string where
  "FRAUD_LABEL = [CHR 0xF0, CHR 0x9F, CHR 0x9A, CHR 0xA8] @ '' FRAUD (0s Signature)''"

definition POTENTIAL_LABEL :: string where
  "POTENTIAL_LABEL =
     [CHR 0xE2, CHR 0x9A, CHR 0xA0, CHR 0xEF, CHR 0xB8, CHR 0x8F]
       @ '' POTENTIAL FRAUD (Short Duration)''"

definition CLEAN_LABEL :: string where
  "CLEAN_LABEL = [CHR 0xE2, CHR 0x9C, CHR 0x85] @ '' CLEAN''"

text \<open>\<open>get_verdict\<close> (lines 151-164).\<close>

definition get_verdict :: "int \<Rightarrow> string" where
  "get_verdict duration_ms =
     (let verdicts0 = [];
          verdicts1 = (if check_zero_seconds_trap duration_ms
                       then verdicts0 @ [FRAUD_LABEL] else verdicts0);
          verdicts2 = (if check_short_task duration_ms
                       then verdicts1 @ [POTENTIAL_LABEL] else verdicts1)
      in if verdicts2 \<noteq> [] then join_str '' | '' verdicts2 else CLEAN_LABEL)"

section \<open>Data model\<close>

text \<open>
  The pydantic models of lines 68-95. The field \<open>total\<close> of \<open>AuditSummary\<close> is named
  \<open>total_count\<close> here. Of \<open>AuditResponse\<close> the fields \<open>timestamp\<close> and \<open>audit_period\<close>
  (wall-clock values and their formatting) are left out.
\<close>

record TimeEntry =
  user :: string
  email :: string
  duration :: string
  duration_ms :: int
  verdict :: string

record TaskGroup =
  task_name :: string
  task_id :: string
  status :: string
  entries :: "TimeEntry list"

record AuditSummary =
  total_count :: int
  fraud :: int
  potential :: int
  clean :: int

record AuditResponse =
  success :: bool
  summary :: AuditSummary
  tasks :: "TaskGroup list"

text \<open>
  What the provider's JSON carries, in the shape the code reads it: a team member with its
  optional \<open>user\<close> object, and a time entry with its optional \<open>user\<close> and \<open>task\<close>
  objects and its \<open>duration\<close>. \<open>None\<close> is an absent key. A value that is present is
  taken to have the JSON type the provider documents (an object, a string); \<open>ju_id\<close>
  holds \<open>str\<close> of the id when the key is present. For \<open>task\<close>, \<open>None\<close> also stands for
  \<open>null\<close> and for the empty object, which \<open>entry.get("task") or {}\<close> and the test
  \<open>if task\<close> treat alike.
\<close>

datatype json_user = JsonUser (ju_id: "string option") (ju_username: "string option")
  (ju_email: "string option")

datatype member = Member (m_user: "json_user option")

datatype User = User (user_id: string) (user_username: string) (user_email: string)

datatype entry_user = EntryUser (eu_username: "string option") (eu_email: "string option")

datatype entry_task = EntryTask (et_name: "string option") (et_id: "string option")

text \<open>
  The \<open>duration\<close> of a raw entry: absent; a number or numeric string, given by the
  integer that \<open>int(...)\<close> makes of it; or a value that \<open>int(...)\<close> rejects.
\<close>

datatype duration_field = DurationMissing | DurationValue int | DurationInvalid

datatype raw_entry = RawEntry (re_user: "entry_user option") (re_task: "entry_task option")
  (re_duration: duration_field)

text \<open>
  The exceptions of the model: the three ways a provider call fails inside the \<open>try\<close>
  blocks (the request itself, \<open>raise_for_status\<close>, decoding or reading the payload), the
  \<open>HTTPException\<close> of \<open>run_audit\<close> with its status code and detail, and \<open>int(...)\<close>
  rejecting a duration.
\<close>

datatype exn =
    RequestError
  | HTTPStatusError nat
  | PayloadError
  | HTTPException nat string
  | CoercionError

section \<open>API functions\<close>

text \<open>
  The provider is a parameter: what the team request and the time-entries request come
  back with, as an exception raised inside the \<open>try\<close> block or as the list the code
  extracts from the payload (\<open>data.get("team", {}).get("members", [])\<close> and
  \<open>data.get("data", [])\<close>). A request is answered the same way throughout one audit.
\<close>

record provider =
  team_api :: "string \<Rightarrow> exn + member list"
  entries_api :: "string \<Rightarrow> int \<Rightarrow> int \<Rightarrow> string \<Rightarrow> exn + raw_entry list"

definition member_to_user :: "member \<Rightarrow> User" where
  "member_to_user m =
     (let u = (case m_user m of None \<Rightarrow> JsonUser None None None | Some u \<Rightarrow> u)
      in User (case ju_id u of None \<Rightarrow> ''None'' | Some s \<Rightarrow> s)
              (case ju_username u of None \<Rightarrow> ''Unknown'' | Some s \<Rightarrow> s)
              (case ju_email u of None \<Rightarrow> [] | Some s \<Rightarrow> s))"

text \<open>The body of the \<open>try\<close> block of \<open>get_all_users\<close> (lines 175-189).\<close>

definition get_all_users_try :: "provider \<Rightarrow> string \<Rightarrow> exn + User list" where
  "get_all_users_try prov team_id =
     (case team_api prov team_id of
        Inl e \<Rightarrow> Inl e
      | Inr members \<Rightarrow> Inr (map member_to_user members))"

text \<open>\<open>get_all_users\<close> (lines 170-192); the \<open>print\<close> of the handler is not modelled.\<close>

definition get_all_users :: "provider \<Rightarrow> string \<Rightarrow> User list" where
  "get_all_users prov team_id =
     (case get_all_users_try prov team_id of
        Inr users \<Rightarrow> users
      | Inl e \<Rightarrow> [])"

text \<open>The body of the \<open>try\<close> block of \<open>get_time_entries_for_user\<close> (lines 206-209).\<close>

definition get_time_entries_for_user_try ::
  "provider \<Rightarrow> string \<Rightarrow> int \<Rightarrow> int \<Rightarrow> string \<Rightarrow> exn + raw_entry list" where
  "get_time_entries_for_user_try prov team_id start_date end_date uid =
     (case entries_api prov team_id start_date end_date uid of
        Inl e \<Rightarrow> Inl e
      | Inr data \<Rightarrow> Inr data)"

text \<open>\<open>get_time_entries_for_user\<close> (lines 195-212).\<close>

definition get_time_entries_for_user ::
  "provider \<Rightarrow> string \<Rightarrow> int \<Rightarrow> int \<Rightarrow> string \<Rightarrow> raw_entry list" where
  "get_time_entries_for_user prov team_id start_date end_date uid =
     (case get_time_entries_for_user_try prov team_id start_date end_date uid of
        Inr data \<Rightarrow> data
      | Inl e \<Rightarrow> [])"

text \<open>
  \<open>get_all_time_entries\<close> (lines 215-231). \<open>asyncio.gather\<close> returns the results in the
  order of the awaitables it was given, whatever the order in which they complete, so
  \<open>results\<close> is the list of the per-user results in the order of \<open>user_ids\<close>; the loop
  then extends \<open>all_entries\<close> with each of them in turn.
\<close>

fun extend_all :: "'a list \<Rightarrow> 'a list list \<Rightarrow> 'a list" where
  "extend_all all_entries [] = all_entries"
| "extend_all all_entries (es # results) = extend_all (all_entries @ es) results"

definition get_all_time_entries ::
  "provider \<Rightarrow> string \<Rightarrow> int \<Rightarrow> int \<Rightarrow> string list \<Rightarrow> raw_entry list" where
  "get_all_time_entries prov team_id start_date end_date user_ids =
     (let results = map (\<lambda>uid. get_time_entries_for_user prov team_id start_date end_date uid)
                        user_ids
      in extend_all [] results)"

section \<open>The audit endpoint\<close>

text \<open>
  \<open>tasks_data\<close> is a \<open>defaultdict(list)\<close>: a dictionary that keeps its keys in the order
  of their first insertion. \<open>tasks_data[key].append(v)\<close> appends to the list of a key
  already there and otherwise adds the key, last, with the one-element list.
\<close>

fun dd_append :: "'k \<Rightarrow> 'v \<Rightarrow> ('k \<times> 'v list) list \<Rightarrow> ('k \<times> 'v list) list" where
  "dd_append k v [] = [(k, [v])]"
| "dd_append k v ((k', vs) # rest) =
     (if k = k' then (k', vs @ [v]) # rest else (k', vs) # dd_append k v rest)"

text \<open>
  \<open>sorted(xs, key=f)\<close> is a stable sort. A stable sort has one possible result; it is
  computed here by insertion from the right, each element going in front of the first
  element whose key is not smaller.
\<close>

fun insert_stable :: "('a \<Rightarrow> nat) \<Rightarrow> 'a \<Rightarrow> 'a list \<Rightarrow> 'a list" where
  "insert_stable key x [] = [x]"
| "insert_stable key x (y # ys) =
     (if key x \<le> key y then x # y # ys else y # insert_stable key x ys)"

fun py_sorted :: "('a \<Rightarrow> nat) \<Rightarrow> 'a list \<Rightarrow> 'a list" where
  "py_sorted key [] = []"
| "py_sorted key (x # xs) = insert_stable key x (py_sorted key xs)"

record audit_state =
  tasks_data :: "((string \<times> string) \<times> TimeEntry list) list"
  fraud_count :: int
  potential_count :: int
  clean_count :: int

text \<open>\<open>int(entry.get("duration", 0))\<close> (line 299).\<close>

fun int_of_duration :: "duration_field \<Rightarrow> exn + int" where
  "int_of_duration DurationMissing = Inr 0"
| "int_of_duration (DurationValue n) = Inr n"
| "int_of_duration DurationInvalid = Inl CoercionError"

text \<open>The body of the loop over the fetched entries (lines 291-318).\<close>

definition process_entry :: "audit_state \<Rightarrow> raw_entry \<Rightarrow> exn + audit_state" where
  "process_entry st entry =
     (let usr = (case re_user entry of None \<Rightarrow> EntryUser None None | Some u \<Rightarrow> u);
          user_name = (case eu_username usr of None \<Rightarrow> ''Unknown User'' | Some s \<Rightarrow> s);
          user_email = (case eu_email usr of None \<Rightarrow> [] | Some s \<Rightarrow> s);
          task = re_task entry;
          task_name_v = (case task of None \<Rightarrow> ''No Task''
                         | Some t \<Rightarrow> (case et_name t of None \<Rightarrow> ''No Task'' | Some s \<Rightarrow> s));
          task_id_v = (case task of None \<Rightarrow> ''N/A''
                       | Some t \<Rightarrow> (case et_id t of None \<Rightarrow> ''N/A'' | Some s \<Rightarrow> s))
      in case int_of_duration (re_duration entry) of
           Inl e \<Rightarrow> Inl e
         | Inr dur_ms \<Rightarrow>
             (let duration_str = ms_to_duration_str dur_ms;
                  verdict_v = get_verdict dur_ms;
                  st1 = (if str_in ''FRAUD'' verdict_v \<and> \<not> str_in ''POTENTIAL'' verdict_v
                         then st\<lparr>fraud_count := fraud_count st + 1\<rparr>
                         else if str_in ''POTENTIAL'' verdict_v
                         then st\<lparr>potential_count := potential_count st + 1\<rparr>
                         else st\<lparr>clean_count := clean_count st + 1\<rparr>);
                  task_key = (task_name_v, task_id_v)
              in Inr (st1\<lparr>tasks_data :=
                        dd_append task_key
                          \<lparr>user = user_name, email = user_email, duration = duration_str,
                           duration_ms = dur_ms, verdict = verdict_v\<rparr>
                          (tasks_data st1)\<rparr>)))"

fun process_entries :: "audit_state \<Rightarrow> raw_entry list \<Rightarrow> exn + audit_state" where
  "process_entries st [] = Inr st"
| "process_entries st (entry # rest) =
     (case process_entry st entry of
        Inl e \<Rightarrow> Inl e
      | Inr st' \<Rightarrow> process_entries st' rest)"

definition initial_state :: audit_state where
  "initial_state =
     \<lparr>tasks_data = [], fraud_count = 0, potential_count = 0, clean_count = 0\<rparr>"

text \<open>\<open>get_task_status\<close> (lines 321-328).\<close>

definition get_task_status :: "TimeEntry list \<Rightarrow> string" where
  "get_task_status es =
     (let has_fraud = list_ex (\<lambda>e. str_in ''FRAUD'' (verdict e)
                                   \<and> \<not> str_in ''POTENTIAL'' (verdict e)) es;
          has_potential = list_ex (\<lambda>e. str_in ''POTENTIAL'' (verdict e)) es
      in if has_fraud then ''fraud''
         else if has_potential then ''potential''
         else ''clean'')"

text \<open>The key of the sort of the groups (line 333) and of the entries of a group (line 341).\<close>

definition task_sort_key :: "(string \<times> string) \<times> TimeEntry list \<Rightarrow> nat" where
  "task_sort_key x =
     (if get_task_status (snd x) = ''fraud'' then 0
      else (if get_task_status (snd x) = ''potential'' then 1 else 2))"

definition entry_sort_key :: "TimeEntry \<Rightarrow> nat" where
  "entry_sort_key x =
     (if str_in ''FRAUD'' (verdict x) \<and> \<not> str_in ''POTENTIAL'' (verdict x) then 0
      else (if str_in ''POTENTIAL'' (verdict x) then 1 else 2))"

text \<open>Lines 331-344: the groups sorted, then each made a \<open>TaskGroup\<close>.\<close>

definition sorted_tasks ::
  "((string \<times> string) \<times> TimeEntry list) list \<Rightarrow> ((string \<times> string) \<times> TimeEntry list) list"
  where
  "sorted_tasks td = py_sorted task_sort_key td"

definition make_task_group :: "(string \<times> string) \<times> TimeEntry list \<Rightarrow> TaskGroup" where
  "make_task_group x =
     (case x of (task_key, es) \<Rightarrow>
        \<lparr>task_name = fst task_key, task_id = snd task_key,
         status = get_task_status es,
         entries = py_sorted entry_sort_key es\<rparr>)"

definition task_groups :: "((string \<times> string) \<times> TimeEntry list) list \<Rightarrow> TaskGroup list" where
  "task_groups td = map make_task_group (sorted_tasks td)"

text \<open>Steps 3 and 4 of \<open>run_audit\<close> (lines 284-361): from the fetched entries to the response.\<close>

definition build_report :: "raw_entry list \<Rightarrow> exn + AuditResponse" where
  "build_report raw_entries =
     (case process_entries initial_state raw_entries of
        Inl e \<Rightarrow> Inl e
      | Inr st \<Rightarrow>
          Inr \<lparr>success = True,
               summary = \<lparr>total_count = int (length raw_entries),
                          fraud = fraud_count st,
                          potential = potential_count st,
                          clean = clean_count st\<rparr>,
               tasks = task_groups (tasks_data st)\<rparr>)"

text \<open>
  \<open>run_audit\<close> (lines 259-361). The team identifier (read from the environment) and the
  two ends of the audit window in epoch milliseconds (computed from the clock and
  \<open>hours\<close>) are parameters.
\<close>

definition run_audit :: "provider \<Rightarrow> string \<Rightarrow> int \<Rightarrow> int \<Rightarrow> exn + AuditResponse" where
  "run_audit prov team_id start_date_ms end_date_ms =
     (let users = get_all_users prov team_id
      in if users = [] then Inl (HTTPException 500 ''Failed to fetch users'')
         else (let user_ids = map user_id users;
                   fetched = get_all_time_entries prov team_id start_date_ms end_date_ms user_ids
               in build_report fetched))"

section \<open>Severity\<close>

text \<open>
  The code has no severity type: it reads the severity of an entry off its verdict string,
  with the same two substring tests in the summary counters (lines 304-309), in
  \<open>get_task_status\<close> (lines 322-323) and in the sort key of the entries (line 341).
  \<open>verdict_severity\<close> names the bucket these tests put a verdict in, \<open>classify\<close> the
  bucket of the verdict of a duration, and \<open>status_name\<close> the status string that
  \<open>get_task_status\<close> returns for a severity.
\<close>

datatype severity = FRAUD | POTENTIAL_FRAUD | CLEAN

definition verdict_severity :: "string \<Rightarrow> severity" where
  "verdict_severity v =
     (if str_in ''FRAUD'' v \<and> \<not> str_in ''POTENTIAL'' v then FRAUD
      else if str_in ''POTENTIAL'' v then POTENTIAL_FRAUD
      else CLEAN)"

definition classify :: "int \<Rightarrow> severity" where
  "classify dur_ms = verdict_severity (get_verdict dur_ms)"





text \<open>The verdict string of a duration for which both checks fire.\<close>

definition BOTH_LABELS :: string where
  "BOTH_LABELS = join_str '' | '' [FRAUD_LABEL, POTENTIAL_LABEL]"

section \<open>Quantities of the summary invariant\<close>

text \<open>
  The number of entries of a list that the substring tests put in the bucket of a
  severity, the sum of the three counters of the loop state, and the number of entries
  held in the groups of \<open>tasks_data\<close>.
\<close>

definition in_bucket :: "severity \<Rightarrow> TimeEntry list \<Rightarrow> int" where
  "in_bucket s es = int (length (filter (\<lambda>e. verdict_severity (verdict e) = s) es))"

definition counted :: "audit_state \<Rightarrow> int" where
  "counted st = fraud_count st + potential_count st + clean_count st"

definition grouped :: "((string \<times> string) \<times> TimeEntry list) list \<Rightarrow> nat" where
  "grouped td = sum_list (map (\<lambda>p. length (snd p)) td)"

definition buckets_ok :: "audit_state \<Rightarrow> bool" where
  "buckets_ok st \<longleftrightarrow>
     fraud_count st = in_bucket FRAUD (concat (map snd (tasks_data st)))
     \<and> potential_count st = in_bucket POTENTIAL_FRAUD (concat (map snd (tasks_data st)))
     \<and> clean_count st = in_bucket CLEAN (concat (map snd (tasks_data st)))"

section \<open>Example runs\<close>

text \<open>
  A provider with two team members. The first has four time entries, three of them on one
  task; the second has no \<open>user\<close> object, so its id is \<open>str(None)\<close>, and the request for
  its time entries fails.
\<close>

definition example_entries :: "raw_entry list" where
  "example_entries =
     [RawEntry (Some (EntryUser (Some ''ann'') (Some ''ann@example.org'')))
               (Some (EntryTask (Some ''Design'') (Some ''86a'')))
               (DurationValue 600000),
      RawEntry (Some (EntryUser (Some ''ann'') (Some ''ann@example.org'')))
               (Some (EntryTask (Some ''Design'') (Some ''86a'')))
               (DurationValue 120000),
      RawEntry (Some (EntryUser (Some ''ann'') (Some ''ann@example.org'')))
               (Some (EntryTask (Some ''Design'') (Some ''86a'')))
               (DurationValue 3600000),
      RawEntry None None (DurationValue 301000)]"

definition example_provider :: provider where
  "example_provider =
     \<lparr>team_api = (\<lambda>team. if team = ''t1''
                  then Inr [Member (Some (JsonUser (Some ''7'') (Some ''ann'')
                                            (Some ''ann@example.org''))),
                            Member None]
                  else Inl (HTTPStatusError 404)),
      entries_api = (\<lambda>team s e uid. if uid = ''7'' then Inr example_entries
                                     else Inl RequestError)\<rparr>"

definition example_report :: AuditResponse where
  "example_report =
     \<lparr>success = True,
      summary = \<lparr>total_count = 4, fraud = 2, potential = 1, clean = 1\<rparr>,
      tasks =
        [\<lparr>task_name = ''Design'', task_id = ''86a'', status = ''fraud'',
          entries =
            [\<lparr>user = ''ann'', email = ''ann@example.org'', duration = ''10m 0s'',
              duration_ms = 600000, verdict = FRAUD_LABEL\<rparr>,
             \<lparr>user = ''ann'', email = ''ann@example.org'', duration = ''1h 0s'',
              duration_ms = 3600000, verdict = FRAUD_LABEL\<rparr>,
             \<lparr>user = ''ann'', email = ''ann@example.org'', duration = ''2m 0s'',
              duration_ms = 120000, verdict = BOTH_LABELS\<rparr>]\<rparr>,
         \<lparr>task_name = ''No Task'', task_id = ''N/A'', status = ''clean'',
          entries =
            [\<lparr>user = ''Unknown User'', email = [], duration = ''5m 1s'',
              duration_ms = 301000, verdict = CLEAN_LABEL\<rparr>]\<rparr>]\<rparr>"



text \<open>Two entries, and two one-entry groups already in severity order.\<close>

definition fraud_entry :: TimeEntry where
  "fraud_entry =
     \<lparr>user = ''ann'', email = [], duration = ''10m 0s'', duration_ms = 600000,
      verdict = FRAUD_LABEL\<rparr>"

definition clean_entry :: TimeEntry where
  "clean_entry =
     \<lparr>user = ''bob'', email = [], duration = ''5m 1s'', duration_ms = 301000,
      verdict = CLEAN_LABEL\<rparr>"

definition ordered_groups :: "((string \<times> string) \<times> TimeEntry list) list" where
  "ordered_groups = [((''Design'', ''86a''), [fraud_entry]), ((''No Task'', ''N/A''), [clean_entry])]"

section \<open>The two checks and the verdict strings\<close>

lemma check_short_task_iff: "check_short_task d \<longleftrightarrow> d < 300000"
  by (simp add: check_short_task_def SHORT_TASK_THRESHOLD_MINUTES_def)

lemma check_zero_seconds_trap_iff:
  "check_zero_seconds_trap d \<longleftrightarrow> (d div 1000) mod 60 = 0 \<and> d > 0"
  by (simp add: check_zero_seconds_trap_def)

lemma get_verdict_cases:
  "get_verdict d =
     (if check_zero_seconds_trap d
      then (if check_short_task d then BOTH_LABELS else FRAUD_LABEL)
      else (if check_short_task d then POTENTIAL_LABEL else CLEAN_LABEL))"
  by (simp add: get_verdict_def BOTH_LABELS_def)

lemma label_tests:
  "str_in ''FRAUD'' FRAUD_LABEL" "\<not> str_in ''POTENTIAL'' FRAUD_LABEL"
  "str_in ''FRAUD'' POTENTIAL_LABEL" "str_in ''POTENTIAL'' POTENTIAL_LABEL"
  "\<not> str_in ''FRAUD'' CLEAN_LABEL" "\<not> str_in ''POTENTIAL'' CLEAN_LABEL"
  "str_in ''FRAUD'' BOTH_LABELS" "str_in ''POTENTIAL'' BOTH_LABELS"
  by (simp_all add: FRAUD_LABEL_def POTENTIAL_LABEL_def CLEAN_LABEL_def BOTH_LABELS_def)

lemma severity_labels:
  "verdict_severity FRAUD_LABEL = FRAUD"
  "verdict_severity POTENTIAL_LABEL = POTENTIAL_FRAUD"
  "verdict_severity CLEAN_LABEL = CLEAN"
  "verdict_severity BOTH_LABELS = POTENTIAL_FRAUD"
  by (simp_all add: verdict_severity_def label_tests)

lemma classify_cases:
  "classify d =
     (if check_short_task d then POTENTIAL_FRAUD
      else if check_zero_seconds_trap d then FRAUD else CLEAN)"
  by (simp add: classify_def get_verdict_cases severity_labels)

lemma example_verdicts:
  "get_verdict 60000 = BOTH_LABELS"
  "get_verdict 120000 = BOTH_LABELS"
  "get_verdict 600000 = FRAUD_LABEL"
  "get_verdict 3600000 = FRAUD_LABEL"
  "get_verdict 301000 = CLEAN_LABEL"
  by (simp_all add: get_verdict_cases check_short_task_iff check_zero_seconds_trap_iff)

section \<open>The duration string\<close>

lemma hours_eq: "(d::int) div 1000 div 3600 = d div 3600000"
  by (simp add: zdiv_zmult2_eq[symmetric])

lemma mod_div_60: "((x::int) mod 3600) div 60 = x div 60 mod 60"
proof -
  have "x mod (60 * 60) = 60 * (x div 60 mod 60) + x mod 60"
    by (rule zmod_zmult2_eq) simp
  then have "x mod 3600 = 60 * (x div 60 mod 60) + x mod 60" by simp
  then show ?thesis by simp
qed

lemma minutes_eq: "((d::int) div 1000 mod 3600) div 60 = d div 60000 mod 60"
  by (simp add: mod_div_60 zdiv_zmult2_eq[symmetric])

lemma seconds_sum:
  "(d::int) div 1000 = d div 3600000 * 3600 + (d div 60000 mod 60) * 60 + d div 1000 mod 60"
proof -
  let ?x = "d div 1000"
  have a: "?x = ?x div 3600 * 3600 + ?x mod 3600" by simp
  have b: "?x mod 3600 = (?x mod 3600) div 60 * 60 + (?x mod 3600) mod 60" by simp
  have c: "(?x mod 3600) mod 60 = ?x mod 60"
    by (simp add: mod_mod_cancel)
  show ?thesis using a b c by (simp only: hours_eq[symmetric] minutes_eq[symmetric])
qed

lemma ms_to_duration_str_parts:
  "ms_to_duration_str d =
     join_str '' ''
       ((if 0 < d div 3600000 then [py_str (d div 3600000) @ ''h''] else [])
        @ (if 0 < d div 60000 mod 60 then [py_str (d div 60000 mod 60) @ ''m''] else [])
        @ [py_str (d div 1000 mod 60) @ ''s''])"
  unfolding ms_to_duration_str_def Let_def hours_eq minutes_eq by simp

lemma duration_examples:
  "ms_to_duration_str 5400000 = ''1h 30m 0s''"
  "ms_to_duration_str 45000 = ''45s''"
  "ms_to_duration_str 0 = ''0s''"
  "ms_to_duration_str 60000 = ''1m 0s''"
  "ms_to_duration_str 600000 = ''10m 0s''"
  "ms_to_duration_str 120000 = ''2m 0s''"
  "ms_to_duration_str 3600000 = ''1h 0s''"
  "ms_to_duration_str 301000 = ''5m 1s''"
  by code_simp+

lemma small_numbers:
  "py_str 1 = ''1''" "py_str 2 = ''2''" "py_str 5 = ''5''"
  by code_simp+

section \<open>The stable sort\<close>

lemma insert_stable_front:
  "(\<forall>y\<in>set ys. key x \<le> key y) \<Longrightarrow> insert_stable key x ys = x # ys"
  by (cases ys) simp_all

lemma insert_stable_append:
  "(\<forall>y\<in>set as. key y < key x) \<Longrightarrow>
     insert_stable key x (as @ bs) = as @ insert_stable key x bs"
  by (induction as) simp_all

lemma py_sorted_tiers:
  assumes "\<forall>x. key x \<le> 2"
  shows "py_sorted key xs =
           filter (\<lambda>x. key x = 0) xs @ filter (\<lambda>x. key x = 1) xs @ filter (\<lambda>x. key x = 2) xs"
proof (induction xs)
  case Nil
  show ?case by simp
next
  case (Cons x xs)
  let ?F0 = "filter (\<lambda>x. key x = 0) xs"
  let ?F1 = "filter (\<lambda>x. key x = 1) xs"
  let ?F2 = "filter (\<lambda>x. key x = 2) xs"
  have step: "py_sorted key (x # xs) = insert_stable key x (?F0 @ ?F1 @ ?F2)"
    using Cons.IH by simp
  consider "key x = 0" | "key x = 1" | "key x = 2"
    using assms[rule_format, of x] by linarith
  then show ?case
  proof cases
    case 1
    then have "insert_stable key x (?F0 @ ?F1 @ ?F2) = x # ?F0 @ ?F1 @ ?F2"
      by (intro insert_stable_front) simp
    with step 1 show ?thesis by simp
  next
    case 2
    have "insert_stable key x (?F0 @ ?F1 @ ?F2) = ?F0 @ insert_stable key x (?F1 @ ?F2)"
      by (rule insert_stable_append) (simp add: 2)
    moreover have "insert_stable key x (?F1 @ ?F2) = x # ?F1 @ ?F2"
      by (rule insert_stable_front) (auto simp: 2)
    ultimately show ?thesis using step 2 by simp
  next
    case 3
    have "insert_stable key x ((?F0 @ ?F1) @ ?F2) = (?F0 @ ?F1) @ insert_stable key x ?F2"
      by (rule insert_stable_append) (auto simp: 3)
    moreover have "insert_stable key x ?F2 = x # ?F2"
      by (rule insert_stable_front) (simp add: 3)
    ultimately show ?thesis using step 3 by simp
  qed
qed

lemma set_insert_stable: "set (insert_stable key x ys) = insert x (set ys)"
  by (induction ys) auto


lemma sorted_insert_stable:
  "sorted (map key ys) \<Longrightarrow> sorted (map key (insert_stable key x ys))"
  by (induction ys) (auto simp: set_insert_stable)

lemma sorted_py_sorted: "sorted (map key (py_sorted key xs))"
  by (induction xs) (simp_all add: sorted_insert_stable)

lemma py_sorted_id: "sorted (map key xs) \<Longrightarrow> py_sorted key xs = xs"
  by (induction xs) (simp_all add: insert_stable_front)

lemma py_sorted_idem: "py_sorted key (py_sorted key xs) = py_sorted key xs"
  by (rule py_sorted_id) (rule sorted_py_sorted)

lemma filter_insert_stable:
  "filter (\<lambda>y. key y = k) (insert_stable key x ys) = filter (\<lambda>y. key y = k) (x # ys)"
  by (induction ys) auto

lemma py_sorted_stable:
  "filter (\<lambda>y. key y = k) (py_sorted key xs) = filter (\<lambda>y. key y = k) xs"
  by (induction xs) (simp_all add: filter_insert_stable)

lemma mset_insert_stable: "mset (insert_stable key x ys) = add_mset x (mset ys)"
  by (induction ys) simp_all

lemma mset_py_sorted: "mset (py_sorted key xs) = mset xs"
  by (induction xs) (simp_all add: mset_insert_stable)

lemma length_py_sorted: "length (py_sorted key xs) = length xs"
  using mset_py_sorted[of key xs] by (metis size_mset)

lemma sum_list_py_sorted:
  "sum_list (map f (py_sorted key xs)) = (sum_list (map f xs) :: nat)"
proof -
  have "mset (map f (py_sorted key xs)) = mset (map f xs)"
    by (simp add: mset_py_sorted)
  then show ?thesis by (metis sum_mset_sum_list)
qed

lemma mset_concat_insert_stable:
  "mset (concat (map f (insert_stable key x ys))) = mset (f x) + mset (concat (map f ys))"
  by (induction ys) simp_all

lemma mset_concat_py_sorted:
  "mset (concat (map f (py_sorted key xs))) = mset (concat (map f xs))"
  by (induction xs) (simp_all add: mset_concat_insert_stable)

section \<open>The group status\<close>

lemma get_task_status_cases:
  "get_task_status es =
     (if \<exists>e\<in>set es. verdict_severity (verdict e) = FRAUD then ''fraud''
      else if \<exists>e\<in>set es. verdict_severity (verdict e) = POTENTIAL_FRAUD then ''potential''
      else ''clean'')"
  by (auto simp: get_task_status_def Let_def list_ex_iff verdict_severity_def split: if_splits)





lemma task_sort_key_le: "task_sort_key x \<le> 2"
  by (simp add: task_sort_key_def)

lemma task_sort_key_iff:
  "task_sort_key x = 0 \<longleftrightarrow> get_task_status (snd x) = ''fraud''"
  "task_sort_key x = 1 \<longleftrightarrow> get_task_status (snd x) = ''potential''"
  "task_sort_key x = 2 \<longleftrightarrow> get_task_status (snd x) = ''clean''"
  by (auto simp: task_sort_key_def get_task_status_cases)

section \<open>The loop over the entries\<close>


lemma sum_lengths_dd_append:
  "sum_list (map (\<lambda>p. length (snd p)) (dd_append k v td))
     = Suc (sum_list (map (\<lambda>p. length (snd p)) td))"
  by (induction td) auto

lemma mset_concat_dd_append:
  "mset (concat (map snd (dd_append k v td))) = add_mset v (mset (concat (map snd td)))"
  by (induction td) auto


lemma process_entry_step:
  assumes "process_entry st entry = Inr st'"
  shows "counted st' = counted st + 1
         \<and> grouped (tasks_data st') = Suc (grouped (tasks_data st))"
  using assms
  by (auto simp: process_entry_def Let_def counted_def grouped_def sum_lengths_dd_append
      split: sum.splits if_splits)

lemma process_entries_total:
  "process_entries st raw = Inr st' \<Longrightarrow>
     counted st' = counted st + int (length raw)
     \<and> grouped (tasks_data st') = grouped (tasks_data st) + length raw"
proof (induction raw arbitrary: st)
  case Nil
  then show ?case by simp
next
  case (Cons entry rest)
  then obtain st1 where s1: "process_entry st entry = Inr st1"
    and s2: "process_entries st1 rest = Inr st'"
    by (auto split: sum.splits)
  from process_entry_step[OF s1] Cons.IH[OF s2] show ?case by simp
qed




lemma in_bucket_mset:
  "mset es = mset es' \<Longrightarrow> in_bucket s es = in_bucket s es'"
proof -
  assume "mset es = mset es'"
  then have "mset (filter (\<lambda>e. verdict_severity (verdict e) = s) es)
           = mset (filter (\<lambda>e. verdict_severity (verdict e) = s) es')"
    by (simp add: mset_filter)
  then have "length (filter (\<lambda>e. verdict_severity (verdict e) = s) es)
           = length (filter (\<lambda>e. verdict_severity (verdict e) = s) es')"
    by (metis size_mset)
  then show ?thesis by (simp add: in_bucket_def)
qed

lemma in_bucket_add:
  "mset es' = add_mset e (mset es) \<Longrightarrow>
     in_bucket s es' = in_bucket s es + (if verdict_severity (verdict e) = s then 1 else 0)"
proof -
  assume "mset es' = add_mset e (mset es)"
  then have "mset es' = mset (e # es)" by simp
  then have "in_bucket s es' = in_bucket s (e # es)" by (rule in_bucket_mset)
  then show ?thesis by (simp add: in_bucket_def)
qed

lemma process_entry_buckets:
  assumes "process_entry st entry = Inr st'" and "buckets_ok st"
  shows "buckets_ok st'"
proof -
  from assms(1) obtain n where n: "int_of_duration (re_duration entry) = Inr n"
    by (auto simp: process_entry_def Let_def split: sum.splits)
  from assms(1) n obtain k te where
    td: "tasks_data st' = dd_append k te (tasks_data st)" and
    v: "verdict te = get_verdict n" and
    f: "fraud_count st' = fraud_count st
          + (if verdict_severity (get_verdict n) = FRAUD then 1 else 0)" and
    p: "potential_count st' = potential_count st
          + (if verdict_severity (get_verdict n) = POTENTIAL_FRAUD then 1 else 0)" and
    c: "clean_count st' = clean_count st
          + (if verdict_severity (get_verdict n) = CLEAN then 1 else 0)"
    by (auto simp: process_entry_def Let_def verdict_severity_def split: if_splits)
  have m: "mset (concat (map snd (tasks_data st')))
             = add_mset te (mset (concat (map snd (tasks_data st))))"
    by (simp add: td mset_concat_dd_append)
  show ?thesis
    using assms(2) f p c
    by (simp add: buckets_ok_def in_bucket_add[OF m] v)
qed

lemma process_entries_buckets:
  "process_entries st raw = Inr st' \<Longrightarrow> buckets_ok st \<Longrightarrow> buckets_ok st'"
proof (induction raw arbitrary: st)
  case Nil
  then show ?case by simp
next
  case (Cons entry rest)
  then obtain st1 where s1: "process_entry st entry = Inr st1"
    and s2: "process_entries st1 rest = Inr st'"
    by (auto split: sum.splits)
  from process_entry_buckets[OF s1 Cons.prems(2)] Cons.IH[OF s2] show ?case by simp
qed

section \<open>The report\<close>

lemma entries_make_task_group: "length (entries (make_task_group x)) = length (snd x)"
  by (cases x) (simp add: make_task_group_def length_py_sorted)

lemma entries_make_task_group_mset: "mset (entries (make_task_group x)) = mset (snd x)"
  by (cases x) (simp add: make_task_group_def mset_py_sorted)


lemma grouped_task_groups:
  "sum_list (map (\<lambda>g. length (entries g)) (task_groups td)) = grouped td"
proof -
  have "sum_list (map (\<lambda>g. length (entries g)) (task_groups td))
          = sum_list (map (\<lambda>p. length (snd p)) (py_sorted task_sort_key td))"
    by (simp add: task_groups_def sorted_tasks_def comp_def entries_make_task_group)
  then show ?thesis by (simp add: grouped_def sum_list_py_sorted)
qed

lemma mset_concat_cong:
  "(\<And>x. mset (f x) = mset (g x)) \<Longrightarrow> mset (concat (map f xs)) = mset (concat (map g xs))"
  by (induction xs) simp_all

lemma mset_entries_task_groups:
  "mset (concat (map entries (task_groups td))) = mset (concat (map snd td))"
proof -
  have "mset (concat (map entries (task_groups td)))
          = mset (concat (map (\<lambda>x. entries (make_task_group x)) (py_sorted task_sort_key td)))"
    by (simp add: task_groups_def sorted_tasks_def comp_def)
  also have "\<dots> = mset (concat (map snd (py_sorted task_sort_key td)))"
    by (rule mset_concat_cong) (rule entries_make_task_group_mset)
  finally show ?thesis by (simp add: mset_concat_py_sorted)
qed

lemma build_report_Inr:
  assumes "build_report raw = Inr r"
  obtains st where "process_entries initial_state raw = Inr st"
    and "r = \<lparr>success = True,
               summary = \<lparr>total_count = int (length raw), fraud = fraud_count st,
                          potential = potential_count st, clean = clean_count st\<rparr>,
               tasks = task_groups (tasks_data st)\<rparr>"
  using assms by (auto simp: build_report_def split: sum.splits)

lemma build_report_totals:
  assumes "build_report raw = Inr r"
  shows "total_count (summary r) = fraud (summary r) + potential (summary r) + clean (summary r)"
    and "total_count (summary r) = int (sum_list (map (\<lambda>g. length (entries g)) (tasks r)))"
proof -
  from assms obtain st where st: "process_entries initial_state raw = Inr st"
    and r: "r = \<lparr>success = True,
               summary = \<lparr>total_count = int (length raw), fraud = fraud_count st,
                          potential = potential_count st, clean = clean_count st\<rparr>,
               tasks = task_groups (tasks_data st)\<rparr>"
    by (rule build_report_Inr)
  from process_entries_total[OF st]
  have c: "counted st = int (length raw)" and g: "grouped (tasks_data st) = length raw"
    by (simp_all add: counted_def grouped_def initial_state_def)
  show "total_count (summary r) = fraud (summary r) + potential (summary r) + clean (summary r)"
    using c by (simp add: r counted_def)
  show "total_count (summary r) = int (sum_list (map (\<lambda>g. length (entries g)) (tasks r)))"
    using g by (simp add: r grouped_task_groups)
qed

lemma build_report_buckets:
  assumes "build_report raw = Inr r"
  shows "fraud (summary r) = in_bucket FRAUD (concat (map entries (tasks r)))"
    and "potential (summary r) = in_bucket POTENTIAL_FRAUD (concat (map entries (tasks r)))"
    and "clean (summary r) = in_bucket CLEAN (concat (map entries (tasks r)))"
proof -
  from assms obtain st where st: "process_entries initial_state raw = Inr st"
    and r: "r = \<lparr>success = True,
               summary = \<lparr>total_count = int (length raw), fraud = fraud_count st,
                          potential = potential_count st, clean = clean_count st\<rparr>,
               tasks = task_groups (tasks_data st)\<rparr>"
    by (rule build_report_Inr)
  have "buckets_ok initial_state"
    by (simp add: buckets_ok_def initial_state_def in_bucket_def)
  with st have ok: "buckets_ok st" by (rule process_entries_buckets)
  have eq: "in_bucket s (concat (map entries (tasks r)))
              = in_bucket s (concat (map snd (tasks_data st)))" for s
    by (rule in_bucket_mset) (simp add: r mset_entries_task_groups)
  show "fraud (summary r) = in_bucket FRAUD (concat (map entries (tasks r)))"
    using ok by (simp add: eq) (simp add: r buckets_ok_def)
  show "potential (summary r) = in_bucket POTENTIAL_FRAUD (concat (map entries (tasks r)))"
    using ok by (simp add: eq) (simp add: r buckets_ok_def)
  show "clean (summary r) = in_bucket CLEAN (concat (map entries (tasks r)))"
    using ok by (simp add: eq) (simp add: r buckets_ok_def)
qed


lemma run_audit_Inr:
  assumes "run_audit prov team s e = Inr r"
  shows "get_all_users prov team \<noteq> []"
    and "build_report (get_all_time_entries prov team s e
           (map user_id (get_all_users prov team))) = Inr r"
  using assms by (auto simp: run_audit_def Let_def split: if_splits)

lemma get_all_users_example:
  "get_all_users example_provider ''t1'' = [User ''7'' ''ann'' ''ann@example.org'',
                                            User ''None'' ''Unknown'' []]"
  by (simp add: get_all_users_def get_all_users_try_def example_provider_def
      member_to_user_def)

lemma get_all_time_entries_example:
  "get_all_time_entries example_provider ''t1'' s e [''7'', ''None''] = example_entries"
  by (simp add: get_all_time_entries_def get_time_entries_for_user_def
      get_time_entries_for_user_try_def example_provider_def)

lemma build_report_example: "build_report example_entries = Inr example_report"
  by (simp add: build_report_def example_entries_def example_report_def process_entry_def
      initial_state_def Let_def example_verdicts duration_examples task_groups_def
      sorted_tasks_def make_task_group_def get_task_status_cases entry_sort_key_def
      task_sort_key_def severity_labels label_tests)

lemma run_audit_example: "run_audit example_provider ''t1'' 0 34200000 = Inr example_report"
  by (simp add: run_audit_def get_all_users_example get_all_time_entries_example
      build_report_example)

section \<open>The claims\<close>

text \<open>
  Claim C1: every positive duration whose whole seconds are a multiple of 60 has severity
  FRAUD, also when the short-duration check fires too; such an entry is counted in the
  fraud bucket and sorted in the fraud tier.

  The code does otherwise at \<open>duration_ms = 60000\<close> (one minute): both checks fire, the
  verdict is the fraud label joined to the potential-fraud label, and since that string
  contains \<open>POTENTIAL\<close> the test \<open>"FRAUD" in verdict and "POTENTIAL" not in verdict\<close>
  fails. An audit of this single entry counts it under \<open>potential\<close>, gives its group
  the status \<open>potential\<close>, and its sort key is 1.
\<close>

theorem both_checks_entry_counted_potential:
  "check_zero_seconds_trap 60000
   \<and> check_short_task 60000
   \<and> get_verdict 60000 = BOTH_LABELS
   \<and> classify 60000 = POTENTIAL_FRAUD
   \<and> build_report [RawEntry None None (DurationValue 60000)] =
       Inr \<lparr>success = True,
            summary = \<lparr>total_count = 1, fraud = 0, potential = 1, clean = 0\<rparr>,
            tasks =
              [\<lparr>task_name = ''No Task'', task_id = ''N/A'', status = ''potential'',
                entries =
                  [\<lparr>user = ''Unknown User'', email = [], duration = ''1m 0s'',
                    duration_ms = 60000, verdict = BOTH_LABELS\<rparr>]\<rparr>]\<rparr>
   \<and> entry_sort_key
         \<lparr>user = ''Unknown User'', email = [], duration = ''1m 0s'',
          duration_ms = 60000, verdict = get_verdict 60000\<rparr> = 1"
proof -
  have z: "check_zero_seconds_trap 60000" by (simp add: check_zero_seconds_trap_iff)
  have s: "check_short_task 60000" by (simp add: check_short_task_iff)
  have c: "classify 60000 = POTENTIAL_FRAUD" by (simp add: classify_cases s)
  have b: "build_report [RawEntry None None (DurationValue 60000)] =
       Inr \<lparr>success = True,
            summary = \<lparr>total_count = 1, fraud = 0, potential = 1, clean = 0\<rparr>,
            tasks =
              [\<lparr>task_name = ''No Task'', task_id = ''N/A'', status = ''potential'',
                entries =
                  [\<lparr>user = ''Unknown User'', email = [], duration = ''1m 0s'',
                    duration_ms = 60000, verdict = BOTH_LABELS\<rparr>]\<rparr>]\<rparr>"
    by (simp add: build_report_def process_entry_def initial_state_def Let_def
        example_verdicts duration_examples task_groups_def sorted_tasks_def
        make_task_group_def get_task_status_cases severity_labels label_tests)
  have k: "entry_sort_key
         \<lparr>user = ''Unknown User'', email = [], duration = ''1m 0s'',
          duration_ms = 60000, verdict = get_verdict 60000\<rparr> = 1"
    by (simp add: entry_sort_key_def example_verdicts label_tests)
  from z s c b k show ?thesis by (simp only: example_verdicts simp_thms)
qed



text \<open>
  Claim C3: for three entries of 600000 ms, 120000 ms and 3600000 ms under one task, the
  group's status is \<open>fraud\<close>, and in its sorted entries the two entries classified only
  by the zero-seconds rule (600000 and 3600000) come before the 120000 entry.

  This holds whatever the users and the task of the three entries are. The 120000 entry
  is exactly two minutes: both checks fire on it, and the audit sorts it in the
  potential tier.
\<close>

theorem three_entries_one_task:
  "\<exists>r g. build_report
       [RawEntry u1 t (DurationValue 600000),
        RawEntry u2 t (DurationValue 120000),
        RawEntry u3 t (DurationValue 3600000)] = Inr r
     \<and> tasks r = [g]
     \<and> status g = ''fraud''
     \<and> map duration_ms (entries g) = [600000, 3600000, 120000]
     \<and> map verdict (entries g) = [FRAUD_LABEL, FRAUD_LABEL, BOTH_LABELS]"
  by (simp add: build_report_def process_entry_def initial_state_def Let_def
      example_verdicts task_groups_def sorted_tasks_def
      make_task_group_def get_task_status_cases entry_sort_key_def task_sort_key_def
      severity_labels label_tests)



text \<open>
  Claim C5: in every audit result, \<open>summary.total\<close> is the sum of \<open>summary.fraud\<close>,
  \<open>summary.potential\<close> and \<open>summary.clean\<close>, and it is the sum of the numbers of
  entries of the task groups.

  Each of the three counters is moreover the number of entries of the report that the
  audit puts in that bucket.
\<close>

theorem summary_counts_add_up:
  assumes "run_audit prov team s e = Inr r"
  shows "total_count (summary r) = fraud (summary r) + potential (summary r) + clean (summary r)
         \<and> total_count (summary r) = int (sum_list (map (\<lambda>g. length (entries g)) (tasks r)))
         \<and> fraud (summary r) = in_bucket FRAUD (concat (map entries (tasks r)))
         \<and> potential (summary r) = in_bucket POTENTIAL_FRAUD (concat (map entries (tasks r)))
         \<and> clean (summary r) = in_bucket CLEAN (concat (map entries (tasks r)))"
proof -
  note b = run_audit_Inr(2)[OF assms]
  from build_report_totals[OF b] build_report_buckets[OF b] show ?thesis by blast
qed

theorem summary_counts_add_up_witness:
  "run_audit example_provider ''t1'' 0 34200000 = Inr example_report
   \<and> total_count (summary example_report) = 2 + 1 + 1
   \<and> int (sum_list (map (\<lambda>g. length (entries g)) (tasks example_report))) = 4
   \<and> in_bucket FRAUD (concat (map entries (tasks example_report))) = 2
   \<and> in_bucket POTENTIAL_FRAUD (concat (map entries (tasks example_report))) = 1
   \<and> in_bucket CLEAN (concat (map entries (tasks example_report))) = 1"
proof -
  have v: "summary example_report = \<lparr>total_count = 4, fraud = 2, potential = 1, clean = 1\<rparr>"
    by (simp add: example_report_def)
  from summary_counts_add_up[OF run_audit_example] run_audit_example show ?thesis
    by (simp add: v)
qed

text \<open>
  Claim C6: the sort of the groups is a stable three-tier sort: the groups of status
  \<open>fraud\<close> first, then \<open>potential\<close>, then \<open>clean\<close>, each tier in the original order;
  so sorting a list that is already in severity order gives the same list.
\<close>

theorem group_sort_stable_three_tiers:
  "sorted_tasks td =
     filter (\<lambda>x. get_task_status (snd x) = ''fraud'') td
     @ filter (\<lambda>x. get_task_status (snd x) = ''potential'') td
     @ filter (\<lambda>x. get_task_status (snd x) = ''clean'') td
   \<and> filter (\<lambda>x. task_sort_key x = k) (sorted_tasks td) = filter (\<lambda>x. task_sort_key x = k) td
   \<and> sorted (map task_sort_key (sorted_tasks td))
   \<and> (sorted (map task_sort_key td) \<longrightarrow> sorted_tasks td = td)
   \<and> sorted_tasks (sorted_tasks td) = sorted_tasks td"
proof -
  have "\<forall>x. task_sort_key x \<le> 2" by (simp add: task_sort_key_le)
  from py_sorted_tiers[OF this, of td]
  have tiers: "sorted_tasks td =
     filter (\<lambda>x. get_task_status (snd x) = ''fraud'') td
     @ filter (\<lambda>x. get_task_status (snd x) = ''potential'') td
     @ filter (\<lambda>x. get_task_status (snd x) = ''clean'') td"
    by (simp only: sorted_tasks_def task_sort_key_iff)
  have stable: "filter (\<lambda>x. task_sort_key x = k) (sorted_tasks td)
                  = filter (\<lambda>x. task_sort_key x = k) td"
    by (simp add: sorted_tasks_def py_sorted_stable)
  have srt: "sorted (map task_sort_key (sorted_tasks td))"
    by (simp add: sorted_tasks_def sorted_py_sorted)
  have ident: "sorted (map task_sort_key td) \<longrightarrow> sorted_tasks td = td"
    by (simp add: sorted_tasks_def py_sorted_id)
  have idem: "sorted_tasks (sorted_tasks td) = sorted_tasks td"
    by (simp add: sorted_tasks_def py_sorted_idem)
  from tiers stable srt ident idem show ?thesis by blast
qed

theorem group_sort_stable_three_tiers_witness:
  "sorted (map task_sort_key ordered_groups) \<and> sorted_tasks ordered_groups = ordered_groups"
proof -
  have s: "sorted (map task_sort_key ordered_groups)"
    by (simp add: ordered_groups_def task_sort_key_def get_task_status_cases
        fraud_entry_def clean_entry_def severity_labels)
  from group_sort_stable_three_tiers[of ordered_groups] s show ?thesis by blast
qed





text \<open>
  Claim C9: for every non-negative \<open>duration_ms\<close>, \<open>ms_to_duration_str\<close> splits it by
  integer division into hours, minutes and seconds, leaves out the hours and the minutes
  when they are zero and always writes the seconds; 5400000 gives \<open>1h 30m 0s\<close>, 45000
  gives \<open>45s\<close> and 0 gives \<open>0s\<close>.
\<close>

theorem ms_to_duration_str_units:
  assumes "0 \<le> d"
  shows "ms_to_duration_str d =
           join_str '' ''
             ((if 0 < d div 3600000 then [py_str (d div 3600000) @ ''h''] else [])
              @ (if 0 < d div 60000 mod 60 then [py_str (d div 60000 mod 60) @ ''m''] else [])
              @ [py_str (d div 1000 mod 60) @ ''s''])
         \<and> d div 1000 = d div 3600000 * 3600 + (d div 60000 mod 60) * 60 + d div 1000 mod 60
         \<and> 0 \<le> d div 3600000
         \<and> 0 \<le> d div 60000 mod 60 \<and> d div 60000 mod 60 < 60
         \<and> 0 \<le> d div 1000 mod 60 \<and> d div 1000 mod 60 < 60
         \<and> ms_to_duration_str 5400000 = ''1h 30m 0s''
         \<and> ms_to_duration_str 45000 = ''45s''
         \<and> ms_to_duration_str 0 = ''0s''"
proof -
  from assms have h: "0 \<le> d div 3600000" by (simp add: pos_imp_zdiv_nonneg_iff)
  have r: "0 \<le> d div 60000 mod 60" "d div 60000 mod 60 < 60"
    "0 \<le> d div 1000 mod 60" "d div 1000 mod 60 < 60"
    by simp_all
  from ms_to_duration_str_parts[of d] seconds_sum[of d] h r duration_examples(1-3)
  show ?thesis by blast
qed

theorem ms_to_duration_str_units_witness:
  "(0::int) \<le> 3725000 \<and> ms_to_duration_str 3725000 = ''1h 2m 5s''"
  using ms_to_duration_str_units[of 3725000] by (simp add: small_numbers)


end
